theory Spec2Isabelle
  imports Main "HOL-Library.Word"
begin

unbundle bit_operations_syntax

section \<open>The platform: constants, byte order, system calls\<close>

text \<open>
  The server is written against the BSD socket interface. The constants below are the
  ones of the system headers the sources include (values as on Linux); the theorems
  name them and never depend on the number behind a name.
\<close>

definition AF_INET :: int where "AF_INET = 2"
definition SOCK_STREAM :: int where "SOCK_STREAM = 1"
definition INADDR_ANY :: int where "INADDR_ANY = 0"
definition SOL_SOCKET :: int where "SOL_SOCKET = 1"
definition SO_RCVTIMEO :: int where "SO_RCVTIMEO = 20"
definition SHUT_RDWR :: int where "SHUT_RDWR = 2"
definition EXIT_FAILURE :: int where "EXIT_FAILURE = 1"

text \<open>
  \<open>htons\<close> and \<open>htonl\<close> turn a host value into the value whose bytes in memory are in
  network (big-endian) order: a byte swap on a little-endian host, the identity on a
  big-endian one. \<open>mem16\<close> and \<open>mem32\<close> give the bytes of a value as the host stores
  them, lowest address first.
\<close>

datatype host = LittleEndian | BigEndian

definition htons :: "host \<Rightarrow> 16 word \<Rightarrow> 16 word" where
  "htons h x = (case h of
      LittleEndian \<Rightarrow> push_bit 8 (x AND 0xFF) OR drop_bit 8 x
    | BigEndian \<Rightarrow> x)"

definition htonl :: "host \<Rightarrow> 32 word \<Rightarrow> 32 word" where
  "htonl h x = (case h of
      LittleEndian \<Rightarrow>
        push_bit 24 (x AND 0xFF) OR push_bit 16 (drop_bit 8 x AND 0xFF)
          OR push_bit 8 (drop_bit 16 x AND 0xFF) OR drop_bit 24 x
    | BigEndian \<Rightarrow> x)"

definition mem16 :: "host \<Rightarrow> 16 word \<Rightarrow> 8 word list" where
  "mem16 h x = (case h of
      LittleEndian \<Rightarrow> [ucast x, ucast (drop_bit 8 x)]
    | BigEndian \<Rightarrow> [ucast (drop_bit 8 x), ucast x])"

definition mem32 :: "host \<Rightarrow> 32 word \<Rightarrow> 8 word list" where
  "mem32 h x = (case h of
      LittleEndian \<Rightarrow> [ucast x, ucast (drop_bit 8 x), ucast (drop_bit 16 x), ucast (drop_bit 24 x)]
    | BigEndian \<Rightarrow> [ucast (drop_bit 24 x), ucast (drop_bit 16 x), ucast (drop_bit 8 x), ucast x])"

record sockaddr_in =
  sin_family :: "16 word"
  sin_port :: "16 word"
  sin_addr :: "32 word"

record timeval =
  tv_sec :: int
  tv_usec :: int

text \<open>
  What the program does to the outside world is a trace of events: the system calls
  with their arguments, and the lines written to the console. A console line is a list
  of the pieces streamed into it.
\<close>

datatype piece =
    Lit string
  | Num int
  | Cstr string
  | Strerror_errno

datatype event =
    Sys_socket int int int
  | Sys_bind int sockaddr_in
  | Sys_listen int int
  | Sys_accept int sockaddr_in
  | Sys_setsockopt int int int timeval
  | Sys_recv int string nat int
  | Sys_send int string int
  | Sys_shutdown int int
  | Sys_close int
  | Perror string
  | Cout "piece list"
  | Cerr "piece list"
  | Printf_hex char
  | Out_of_bounds_write nat

text \<open>
  \<open>Sys_recv fd buf len flags\<close> records the content \<open>buf\<close> of the destination buffer at
  the moment of the call. \<open>Out_of_bounds_write i\<close> records a store to \<open>buffer[i]\<close> with
  \<open>i\<close> outside the array (undefined behaviour in C++; what the compiled program
  overwrites is described with \<open>store_buffer\<close>).

  A run of set-up code produces a trace and either the exit status of the process
  (\<open>Inl\<close>, after \<open>exit\<close>) or a value (\<open>Inr\<close>).
\<close>

type_synonym 'a run = "event list \<times> (int + 'a)"

text \<open>
  The replies of the operating system during set-up, and the indeterminate values found
  in data members that no constructor initialises (\<open>uninit m\<close> for the member named \<open>m\<close>).
\<close>

record setup_env =
  socket_ret :: int
  bind_ret :: int
  listen_ret :: int
  uninit :: "string \<Rightarrow> int"

section \<open>Networking/Sockets\<close>

subsection \<open>SimpleSocket\<close>

record SimpleSocket =
  address :: sockaddr_in
  sock :: int
  connection :: int

definition test_connection :: "int \<Rightarrow> unit run" where
  "test_connection item_to_test =
     (if item_to_test < 0 then ([Perror ''Failed to connect!''], Inl EXIT_FAILURE)
      else ([], Inr ()))"

definition get_address :: "'a SimpleSocket_scheme \<Rightarrow> sockaddr_in" where
  "get_address this = address this"

definition get_sock :: "'a SimpleSocket_scheme \<Rightarrow> int" where
  "get_sock this = sock this"

definition set_connection :: "int \<Rightarrow> 'a SimpleSocket_scheme \<Rightarrow> 'a SimpleSocket_scheme" where
  "set_connection con this = this\<lparr>connection := con\<rparr>"

definition SimpleSocket ::
  "host \<Rightarrow> setup_env \<Rightarrow> int \<Rightarrow> int \<Rightarrow> int \<Rightarrow> int \<Rightarrow> int \<Rightarrow> SimpleSocket run" where
  "SimpleSocket h env domain service protocol port interface =
     (let this = \<lparr>address = \<lparr>sin_family = word_of_int domain,
                              sin_port = htons h (word_of_int port),
                              sin_addr = htonl h (word_of_int interface)\<rparr>,
                  sock = socket_ret env,
                  connection = uninit env ''connection''\<rparr>
      in case test_connection (sock this) of
           (tr, Inl status) \<Rightarrow> (Sys_socket domain service protocol # tr, Inl status)
         | (tr, Inr _) \<Rightarrow> (Sys_socket domain service protocol # tr, Inr this))"

subsection \<open>BindingSocket\<close>

record BindingSocket = SimpleSocket +
  binding :: int

definition connect_to_nw :: "setup_env \<Rightarrow> int \<Rightarrow> sockaddr_in \<Rightarrow> event list \<times> int" where
  "connect_to_nw env s a = ([Sys_bind s a], bind_ret env)"

definition get_binding :: "'a BindingSocket_scheme \<Rightarrow> int" where
  "get_binding this = binding this"

text \<open>
  The constructor stores the result of \<open>bind\<close> with \<open>set_connection\<close> and then tests the
  member \<open>binding\<close>, which nothing has written: it holds \<open>uninit env ''binding''\<close>.
\<close>

definition BindingSocket ::
  "host \<Rightarrow> setup_env \<Rightarrow> int \<Rightarrow> int \<Rightarrow> int \<Rightarrow> int \<Rightarrow> int \<Rightarrow> BindingSocket run" where
  "BindingSocket h env domain service protocol port interface =
     (case SimpleSocket h env domain service protocol port interface of
        (tr, Inl status) \<Rightarrow> (tr, Inl status)
      | (tr, Inr base) \<Rightarrow>
          (let this = \<lparr>address = address base, sock = sock base, connection = connection base,
                       binding = uninit env ''binding''\<rparr>;
               (tr1, r) = connect_to_nw env (get_sock this) (get_address this);
               this = set_connection r this
           in case test_connection (binding this) of
                (tr2, Inl status) \<Rightarrow> (tr @ tr1 @ tr2, Inl status)
              | (tr2, Inr _) \<Rightarrow> (tr @ tr1 @ tr2, Inr this)))"

subsection \<open>ListeningSocket\<close>

record ListeningSocket = BindingSocket +
  backlog :: int
  listening :: int

definition start_listening ::
  "setup_env \<Rightarrow> ListeningSocket \<Rightarrow> event list \<times> ListeningSocket" where
  "start_listening env this =
     ([Sys_listen (get_sock this) (backlog this)], this\<lparr>listening := listen_ret env\<rparr>)"

definition get_listening :: "ListeningSocket \<Rightarrow> int" where
  "get_listening this = listening this"

definition get_backlog :: "ListeningSocket \<Rightarrow> int" where
  "get_backlog this = backlog this"

definition ListeningSocket ::
  "host \<Rightarrow> setup_env \<Rightarrow> int \<Rightarrow> int \<Rightarrow> int \<Rightarrow> int \<Rightarrow> int \<Rightarrow> int \<Rightarrow> ListeningSocket run" where
  "ListeningSocket h env domain service protocol port interface bcklg =
     (case BindingSocket h env domain service protocol port interface of
        (tr, Inl status) \<Rightarrow> (tr, Inl status)
      | (tr, Inr base) \<Rightarrow>
          (let this = \<lparr>address = address base, sock = sock base, connection = connection base,
                       binding = binding base,
                       backlog = uninit env ''backlog'', listening = uninit env ''listening''\<rparr>;
               this = this\<lparr>backlog := bcklg\<rparr>;
               (tr1, this) = start_listening env this
           in case test_connection (listening this) of
                (tr2, Inl status) \<Rightarrow> (tr @ tr1 @ tr2, Inl status)
              | (tr2, Inr _) \<Rightarrow> (tr @ tr1 @ tr2, Inr this)))"

section \<open>Networking/Servers\<close>

subsection \<open>SimpleServer\<close>

text \<open>
  The server holds a pointer to the one \<open>ListeningSocket\<close> it creates with \<open>new\<close>; the
  model holds the object itself. The member is private and \<open>SimpleServer\<close> has no
  operation but its constructor and \<open>get_socket\<close>.
\<close>

record SimpleServer =
  socket :: ListeningSocket

definition SimpleServer ::
  "host \<Rightarrow> setup_env \<Rightarrow> int \<Rightarrow> int \<Rightarrow> int \<Rightarrow> int \<Rightarrow> int \<Rightarrow> int \<Rightarrow> SimpleServer run" where
  "SimpleServer h env domain service protocol port interface bcklg =
     (case ListeningSocket h env domain service protocol port interface bcklg of
        (tr, Inl status) \<Rightarrow> (tr, Inl status)
      | (tr, Inr s) \<Rightarrow> (tr, Inr \<lparr>socket = s\<rparr>))"

definition get_socket :: "'a SimpleServer_scheme \<Rightarrow> ListeningSocket" where
  "get_socket this = socket this"

subsection \<open>TestServer\<close>

text \<open>
  \<open>buffer\<close> is \<open>char buffer[30000]\<close>, a list of \<open>sizeof_buffer\<close> characters;
  \<open>new_socket\<close> is the descriptor of the connection of the current iteration.
\<close>

record TestServer = SimpleServer +
  buffer :: string
  new_socket :: int

definition sizeof_buffer :: nat where
  "sizeof_buffer = 30000"

definition memset :: "string \<Rightarrow> char \<Rightarrow> nat \<Rightarrow> string" where
  "memset s c n = replicate n c @ drop n s"

definition strlen :: "string \<Rightarrow> nat" where
  "strlen s = length (takeWhile (\<lambda>c. c \<noteq> CHR 0x00) s)"

text \<open>
  The replies of the operating system during one iteration of the server loop: the
  value \<open>accept\<close> returns, what \<open>recv\<close> delivers, and the value \<open>send\<close> returns.
  \<open>recv\<close> either fails (returns -1) or copies at most \<open>len\<close> of the bytes the peer has sent
  to the start of the buffer and returns their number; no bytes (a peer that closed
  without sending) gives 0.
\<close>

datatype recv_reply = Recv_error | Recv_bytes string

record conn_env =
  accept_ret :: int
  recv_reply :: recv_reply
  send_ret :: int

fun sys_recv :: "recv_reply \<Rightarrow> string \<Rightarrow> nat \<Rightarrow> int \<times> string" where
  "sys_recv Recv_error buf len = (- 1, buf)"
| "sys_recv (Recv_bytes d) buf len =
     (let got = take len d in (int (length got), got @ drop (length got) buf))"

text \<open>
  The store \<open>buffer[i] = c\<close>. The array has \<open>sizeof_buffer\<close> elements. \<open>new_socket\<close> is
  declared right after \<open>buffer\<close>, and the 30000 bytes of the buffer end on a multiple of 4
  (the base class takes the 16 bytes of a virtual-table pointer and the pointer
  \<open>socket\<close>), so \<open>new_socket\<close> starts at the byte after the buffer: a store to
  \<open>buffer[sizeof_buffer + j]\<close> with \<open>j < 4\<close> overwrites byte \<open>j\<close> of \<open>new_socket\<close>, the
  lowest byte first on a little-endian host and the highest first on a big-endian one.
  \<open>store_int_byte h j c n\<close> is the \<open>int\<close> that \<open>n\<close> becomes when the byte at offset \<open>j\<close> of
  its four bytes is set to \<open>c\<close>. A store further out is recorded and changes nothing of
  the server.
\<close>

definition store_int_byte :: "host \<Rightarrow> nat \<Rightarrow> char \<Rightarrow> int \<Rightarrow> int" where
  "store_int_byte h j c n =
     (let shift = (case h of LittleEndian \<Rightarrow> 8 * j | BigEndian \<Rightarrow> 8 * (3 - j));
          w = (word_of_int n :: 32 word)
      in sint ((w AND NOT (push_bit shift 0xFF)) OR push_bit shift (of_char c)))"

definition store_buffer ::
  "host \<Rightarrow> nat \<Rightarrow> char \<Rightarrow> TestServer \<Rightarrow> event list \<times> TestServer" where
  "store_buffer h i c this =
     (if i < sizeof_buffer then ([], this\<lparr>buffer := (buffer this)[i := c]\<rparr>)
      else if i - sizeof_buffer < 4 then
        ([Out_of_bounds_write i],
         this\<lparr>new_socket := store_int_byte h (i - sizeof_buffer) c (new_socket this)\<rparr>)
      else ([Out_of_bounds_write i], this))"

text \<open>The loop of \<open>acceptor\<close> that prints the first bytes received, at most 50, in hex.\<close>

function hex_loop :: "nat \<Rightarrow> int \<Rightarrow> string \<Rightarrow> event list" where
  "hex_loop i bytes_read buf =
     (if int i < bytes_read \<and> i < 50 then Printf_hex (buf ! i) # hex_loop (Suc i) bytes_read buf
      else [])"
  by pat_completeness auto
termination
  by (relation "measure (\<lambda>(i, n, b). 50 - i)") auto

declare hex_loop.simps [simp del]

definition acceptor :: "host \<Rightarrow> conn_env \<Rightarrow> TestServer \<Rightarrow> event list \<times> TestServer" where
  "acceptor h env this =
     (let addr = get_address (get_socket this);
          tr0 = [Cout [Lit ''Attempting to accept connection...''],
                 Sys_accept (get_sock (get_socket this)) addr];
          this = this\<lparr>new_socket := accept_ret env\<rparr>
      in if new_socket this < 0 then
           (tr0 @ [Cerr [Lit ''Accept failed with error: '', Strerror_errno]], this)
         else
           let tr1 = tr0 @ [Cout [Lit ''Connection accepted on socket: '', Num (new_socket this)]];
               this = this\<lparr>buffer := memset (buffer this) (CHR 0x00) sizeof_buffer\<rparr>;
               tv = \<lparr>tv_sec = 5, tv_usec = 0\<rparr>;
               tr2 = tr1 @ [Sys_setsockopt (new_socket this) SOL_SOCKET SO_RCVTIMEO tv,
                            Cout [Lit ''Reading from socket...''],
                            Sys_recv (new_socket this) (buffer this) 30000 0];
               (bytes_read, buf) = sys_recv (recv_reply env) (buffer this) 30000;
               this = this\<lparr>buffer := buf\<rparr>
           in if bytes_read < 0 then
                (tr2 @ [Cerr [Lit ''Read failed with error: '', Strerror_errno],
                        Sys_close (new_socket this)], this)
              else if bytes_read = 0 then
                (tr2 @ [Cerr [Lit ''Client closed connection''],
                        Sys_close (new_socket this)], this)
              else
                let tr3 = tr2 @ [Cout [Lit ''Bytes read: '', Num bytes_read]];
                    (tr4, this) = store_buffer h (nat bytes_read) (CHR 0x00) this
                in (tr3 @ tr4 @ [Cout [Lit ''Raw received data (hex):'']]
                      @ hex_loop 0 bytes_read (buffer this) @ [Cout []], this))"

definition handler :: "TestServer \<Rightarrow> event list \<times> TestServer" where
  "handler this =
     (if strlen (buffer this) > 0 then
        ([Cout [Lit (CHR 0x0A # ''Received Request (''), Num (int (strlen (buffer this))),
                Lit '' bytes):''],
          Cout [Lit ''--- Begin Request ---''],
          Cout [Cstr (take (strlen (buffer this)) (buffer this))],
          Cout [Lit ''--- End Request ---'']], this)
      else ([Cout [Lit ''Empty request received'']], this))"

definition responder :: "conn_env \<Rightarrow> TestServer \<Rightarrow> event list \<times> TestServer" where
  "responder env this =
     (let response = ''HTTP/1.1 200 OK'' @ [CHR 0x0D, CHR 0x0A]
                     @ ''Content-Type: text/plain'' @ [CHR 0x0D, CHR 0x0A]
                     @ ''Connection: close'' @ [CHR 0x0D, CHR 0x0A]
                     @ ''Content-Length: 19'' @ [CHR 0x0D, CHR 0x0A]
                     @ [CHR 0x0D, CHR 0x0A]
                     @ ''Hello from Server!'' @ [CHR 0x0D, CHR 0x0A];
          bytes_sent = send_ret env
      in (Sys_send (new_socket this) (take (strlen response) response) 0
            # (if bytes_sent < 0 then [Cerr [Lit ''Failed to send response: '', Strerror_errno]]
               else [Cout [Lit ''Sent '', Num bytes_sent, Lit '' bytes as response'']])
            @ [Sys_shutdown (new_socket this) SHUT_RDWR, Sys_close (new_socket this)], this))"

text \<open>
  \<open>launch\<close> is \<open>while(true)\<close>: it never returns. The model runs one iteration for each
  element of the list of replies, so \<open>launch h k envs\<close> is the run of the loop through its
  next \<open>length envs\<close> iterations, \<open>k\<close> counting the iterations before them. Every event
  is stamped with the iteration and the stage of the loop body that produced it.
\<close>

datatype stage = Waiting | Accepting | Handling | Responding | Handled

type_synonym stamped = "nat \<times> stage \<times> event"

definition stamp :: "nat \<Rightarrow> stage \<Rightarrow> event list \<Rightarrow> stamped list" where
  "stamp k st tr = map (\<lambda>e. (k, st, e)) tr"

fun launch ::
  "host \<Rightarrow> nat \<Rightarrow> conn_env list \<Rightarrow> TestServer \<Rightarrow> stamped list \<times> TestServer" where
  "launch h k [] this = ([], this)"
| "launch h k (env # envs) this =
     (let (t1, this) = acceptor h env this;
          (t2, this) = handler this;
          (t3, this) = responder env this;
          (rest, this) = launch h (Suc k) envs this
      in (stamp k Waiting [Cout [Lit (CHR 0x0A # ''=== Waiting for new connection ===='')]]
            @ stamp k Accepting t1 @ stamp k Handling t2 @ stamp k Responding t3
            @ stamp k Handled [Cout [Lit ''=== Connection handled ===='']]
            @ rest, this))"

definition TestServer ::
  "host \<Rightarrow> setup_env \<Rightarrow> conn_env list \<Rightarrow> (stamped list \<times> TestServer) run" where
  "TestServer h env conns =
     (case SimpleServer h env AF_INET SOCK_STREAM 0 3000 INADDR_ANY 10 of
        (tr, Inl status) \<Rightarrow> (tr, Inl status)
      | (tr, Inr base) \<Rightarrow>
          (let this = \<lparr>socket = socket base,
                       buffer = replicate sizeof_buffer (CHR 0x00),
                       new_socket = uninit env ''new_socket''\<rparr>;
               this = this\<lparr>buffer := memset (buffer this) (CHR 0x00) sizeof_buffer\<rparr>
           in (tr, Inr (launch h 0 conns this))))"

section \<open>Reading traces\<close>

text \<open>The system calls of a trace, without the console output.\<close>

fun is_syscall :: "event \<Rightarrow> bool" where
  "is_syscall (Perror m) = False"
| "is_syscall (Cout ps) = False"
| "is_syscall (Cerr ps) = False"
| "is_syscall (Printf_hex c) = False"
| "is_syscall (Out_of_bounds_write i) = False"
| "is_syscall e = True"

text \<open>The destination buffers of the \<open>recv\<close> calls of a trace, as they were at each call.\<close>

fun recv_buffers :: "event list \<Rightarrow> string list" where
  "recv_buffers [] = []"
| "recv_buffers (Sys_recv fd buf len flags # tr) = buf # recv_buffers tr"
| "recv_buffers (e # tr) = recv_buffers tr"

text \<open>The indices of the stores of a trace that fall outside the buffer.\<close>

fun out_of_bounds_writes :: "event list \<Rightarrow> nat list" where
  "out_of_bounds_writes [] = []"
| "out_of_bounds_writes (Out_of_bounds_write i # tr) = i # out_of_bounds_writes tr"
| "out_of_bounds_writes (e # tr) = out_of_bounds_writes tr"

text \<open>
  The events of a stamped trace; the events of one stage of one iteration; and the
  position of a stamp in the order iteration by iteration, stage by stage.
\<close>

definition events :: "stamped list \<Rightarrow> event list" where
  "events tr = map (\<lambda>(k, st, e). e) tr"

definition stage_events :: "nat \<Rightarrow> stage \<Rightarrow> stamped list \<Rightarrow> event list" where
  "stage_events j st tr = events (filter (\<lambda>(k, st', e). k = j \<and> st' = st) tr)"

fun stage_rank :: "stage \<Rightarrow> nat" where
  "stage_rank Waiting = 0"
| "stage_rank Accepting = 1"
| "stage_rank Handling = 2"
| "stage_rank Responding = 3"
| "stage_rank Handled = 4"

definition stamp_key :: "stamped \<Rightarrow> nat" where
  "stamp_key x = (case x of (k, st, e) \<Rightarrow> 5 * k + stage_rank st)"

text \<open>
  A listening socket on descriptor 3 and a server around it whose buffer still holds the
  bytes of an earlier request, for the examples.
\<close>

definition example_socket :: ListeningSocket where
  "example_socket =
     \<lparr>address = \<lparr>sin_family = 2, sin_port = 0xB80B, sin_addr = 0\<rparr>, sock = 3,
      connection = 0, binding = 0, backlog = 10, listening = 0\<rparr>"

definition example_server :: TestServer where
  "example_server =
     \<lparr>socket = example_socket,
      buffer = ''GET / HTTP/1.1'' @ replicate (sizeof_buffer - 14) (CHR 0x00),
      new_socket = 4\<rparr>"

section \<open>Set-up: the three constructors, step by step\<close>

lemma SimpleSocket_run:
  "SimpleSocket h env d s p port i =
     (if socket_ret env < 0 then ([Sys_socket d s p, Perror ''Failed to connect!''], Inl EXIT_FAILURE)
      else ([Sys_socket d s p],
            Inr \<lparr>address = \<lparr>sin_family = word_of_int d, sin_port = htons h (word_of_int port),
                              sin_addr = htonl h (word_of_int i)\<rparr>,
                 sock = socket_ret env, connection = uninit env ''connection''\<rparr>))"
  by (simp add: SimpleSocket_def test_connection_def Let_def)

lemma BindingSocket_run:
  "BindingSocket h env d s p port i =
     (let a = \<lparr>sin_family = word_of_int d, sin_port = htons h (word_of_int port),
               sin_addr = htonl h (word_of_int i)\<rparr>
      in if socket_ret env < 0 then
           ([Sys_socket d s p, Perror ''Failed to connect!''], Inl EXIT_FAILURE)
         else if uninit env ''binding'' < 0 then
           ([Sys_socket d s p, Sys_bind (socket_ret env) a, Perror ''Failed to connect!''],
            Inl EXIT_FAILURE)
         else ([Sys_socket d s p, Sys_bind (socket_ret env) a],
               Inr \<lparr>address = a, sock = socket_ret env, connection = bind_ret env,
                    binding = uninit env ''binding''\<rparr>))"
  by (simp add: BindingSocket_def SimpleSocket_run test_connection_def connect_to_nw_def
      get_sock_def get_address_def set_connection_def Let_def)

lemma ListeningSocket_run:
  "ListeningSocket h env d s p port i b =
     (let a = \<lparr>sin_family = word_of_int d, sin_port = htons h (word_of_int port),
               sin_addr = htonl h (word_of_int i)\<rparr>
      in if socket_ret env < 0 then
           ([Sys_socket d s p, Perror ''Failed to connect!''], Inl EXIT_FAILURE)
         else if uninit env ''binding'' < 0 then
           ([Sys_socket d s p, Sys_bind (socket_ret env) a, Perror ''Failed to connect!''],
            Inl EXIT_FAILURE)
         else if listen_ret env < 0 then
           ([Sys_socket d s p, Sys_bind (socket_ret env) a, Sys_listen (socket_ret env) b,
             Perror ''Failed to connect!''], Inl EXIT_FAILURE)
         else ([Sys_socket d s p, Sys_bind (socket_ret env) a, Sys_listen (socket_ret env) b],
               Inr \<lparr>address = a, sock = socket_ret env, connection = bind_ret env,
                    binding = uninit env ''binding'', backlog = b, listening = listen_ret env\<rparr>))"
  by (simp add: ListeningSocket_def BindingSocket_run test_connection_def start_listening_def
      get_sock_def Let_def)

section \<open>Set-up failures\<close>

text \<open>
  C1. A failed \<open>bind\<close> should end the process before \<open>listen\<close> is tried. The constructor
  tests the member \<open>binding\<close>, which was never written, and not the result of \<open>bind\<close>: with
  \<open>bind\<close> returning -1 and a non-negative value in \<open>binding\<close>, construction completes and
  \<open>listen\<close> is called on the unbound descriptor.
\<close>

theorem bind_failure_goes_unnoticed:
  "ListeningSocket LittleEndian
      \<lparr>socket_ret = 3, bind_ret = - 1, listen_ret = 0, uninit = (\<lambda>m. 0)\<rparr>
      AF_INET SOCK_STREAM 0 3000 INADDR_ANY 10
    = ([Sys_socket AF_INET SOCK_STREAM 0,
        Sys_bind 3 \<lparr>sin_family = 2, sin_port = 0xB80B, sin_addr = 0\<rparr>,
        Sys_listen 3 10],
       Inr \<lparr>address = \<lparr>sin_family = 2, sin_port = 0xB80B, sin_addr = 0\<rparr>, sock = 3,
            connection = - 1, binding = 0, backlog = 10, listening = 0\<rparr>)"
  by (simp add: ListeningSocket_run Let_def htons_def htonl_def AF_INET_def INADDR_ANY_def)

text \<open>
  C5. If \<open>socket\<close> returns a negative descriptor, the process exits with \<open>EXIT_FAILURE\<close>
  right after that call: nothing is bound and nothing listens. If \<open>listen\<close> fails, the
  process exits with \<open>EXIT_FAILURE\<close> as well. In both cases the constructor of the server
  ends in the exit and the loop is never entered.
\<close>

theorem setup_failure_is_fatal:
  "(socket_ret env < 0 \<longrightarrow>
      ListeningSocket h env d s p port i b
        = ([Sys_socket d s p, Perror ''Failed to connect!''], Inl EXIT_FAILURE) \<and>
      TestServer h env conns
        = ([Sys_socket AF_INET SOCK_STREAM 0, Perror ''Failed to connect!''], Inl EXIT_FAILURE))
   \<and> (listen_ret env < 0 \<longrightarrow>
      snd (ListeningSocket h env d s p port i b) = Inl EXIT_FAILURE \<and>
      snd (TestServer h env conns) = Inl EXIT_FAILURE)"
  by (simp add: TestServer_def SimpleServer_def ListeningSocket_run Let_def)

theorem setup_failure_is_fatal_witness:
  "TestServer LittleEndian \<lparr>socket_ret = - 1, bind_ret = 0, listen_ret = 0, uninit = (\<lambda>m. 0)\<rparr> []
     = ([Sys_socket AF_INET SOCK_STREAM 0, Perror ''Failed to connect!''], Inl EXIT_FAILURE)
   \<and> snd (TestServer LittleEndian \<lparr>socket_ret = 3, bind_ret = 0, listen_ret = - 1, uninit = (\<lambda>m. 0)\<rparr> [])
     = Inl EXIT_FAILURE"
  using setup_failure_is_fatal [of "\<lparr>socket_ret = - 1, bind_ret = 0, listen_ret = 0, uninit = (\<lambda>m. 0)\<rparr>"
      LittleEndian 0 0 0 0 0 0 "[]"]
    setup_failure_is_fatal [of "\<lparr>socket_ret = 3, bind_ret = 0, listen_ret = - 1, uninit = (\<lambda>m. 0)\<rparr>"
      LittleEndian 0 0 0 0 0 0 "[]"]
  by simp

text \<open>
  C10. No operation writes the member \<open>binding\<close>. The result of \<open>bind\<close> goes to the member
  \<open>connection\<close> of the base class; \<open>binding\<close> keeps the indeterminate value it had when the
  object was allocated, whatever \<open>bind\<close> returned, and that value is what the test after
  \<open>bind\<close> reads: once the socket exists, construction ends in the exit exactly when the
  value is negative. \<open>set_connection\<close> and \<open>start_listening\<close>, the operations that write to
  a socket object afterwards, leave \<open>get_binding\<close> as it is.
\<close>

theorem binding_member_never_assigned:
  "snd (BindingSocket h env d s p port i) =
     (if socket_ret env < 0 \<or> uninit env ''binding'' < 0 then Inl EXIT_FAILURE
      else Inr \<lparr>address = \<lparr>sin_family = word_of_int d, sin_port = htons h (word_of_int port),
                            sin_addr = htonl h (word_of_int i)\<rparr>,
                sock = socket_ret env, connection = bind_ret env,
                binding = uninit env ''binding''\<rparr>)
   \<and> get_binding (set_connection c this) = get_binding this
   \<and> get_binding (snd (start_listening env ls)) = get_binding ls"
  by (simp add: BindingSocket_run Let_def get_binding_def set_connection_def start_listening_def)

section \<open>The stages of the loop, case by case\<close>

lemma length_memset: "length (memset s c n) = max n (length s)"
  by (simp add: memset_def)

lemma memset_whole: "length s = n \<Longrightarrow> memset s c n = replicate n c"
  by (simp add: memset_def)

lemma fst_sys_recv:
  "fst (sys_recv r buf len) = (case r of Recv_error \<Rightarrow> - 1 | Recv_bytes d \<Rightarrow> int (min (length d) len))"
  by (cases r) (simp_all add: Let_def)

lemma acceptor_accept_failed:
  "accept_ret env < 0 \<Longrightarrow>
     acceptor h env this =
       ([Cout [Lit ''Attempting to accept connection...''],
         Sys_accept (sock (socket this)) (address (socket this)),
         Cerr [Lit ''Accept failed with error: '', Strerror_errno]],
        this\<lparr>new_socket := accept_ret env\<rparr>)"
  by (simp add: acceptor_def Let_def get_socket_def get_sock_def get_address_def)

lemma acceptor_recv_error:
  "0 \<le> accept_ret env \<Longrightarrow> recv_reply env = Recv_error \<Longrightarrow>
     acceptor h env this =
       ([Cout [Lit ''Attempting to accept connection...''],
         Sys_accept (sock (socket this)) (address (socket this)),
         Cout [Lit ''Connection accepted on socket: '', Num (accept_ret env)],
         Sys_setsockopt (accept_ret env) SOL_SOCKET SO_RCVTIMEO \<lparr>tv_sec = 5, tv_usec = 0\<rparr>,
         Cout [Lit ''Reading from socket...''],
         Sys_recv (accept_ret env) (memset (buffer this) (CHR 0x00) sizeof_buffer) 30000 0,
         Cerr [Lit ''Read failed with error: '', Strerror_errno],
         Sys_close (accept_ret env)],
        this\<lparr>new_socket := accept_ret env, buffer := memset (buffer this) (CHR 0x00) sizeof_buffer\<rparr>)"
  by (simp add: acceptor_def Let_def get_socket_def get_sock_def get_address_def)

lemma acceptor_recv_nothing:
  "0 \<le> accept_ret env \<Longrightarrow> recv_reply env = Recv_bytes [] \<Longrightarrow>
     acceptor h env this =
       ([Cout [Lit ''Attempting to accept connection...''],
         Sys_accept (sock (socket this)) (address (socket this)),
         Cout [Lit ''Connection accepted on socket: '', Num (accept_ret env)],
         Sys_setsockopt (accept_ret env) SOL_SOCKET SO_RCVTIMEO \<lparr>tv_sec = 5, tv_usec = 0\<rparr>,
         Cout [Lit ''Reading from socket...''],
         Sys_recv (accept_ret env) (memset (buffer this) (CHR 0x00) sizeof_buffer) 30000 0,
         Cerr [Lit ''Client closed connection''],
         Sys_close (accept_ret env)],
        this\<lparr>new_socket := accept_ret env, buffer := memset (buffer this) (CHR 0x00) sizeof_buffer\<rparr>)"
  by (simp add: acceptor_def Let_def get_socket_def get_sock_def get_address_def)

lemma acceptor_recv_bytes:
  "0 \<le> accept_ret env \<Longrightarrow> recv_reply env = Recv_bytes d \<Longrightarrow> d \<noteq> [] \<Longrightarrow>
     acceptor h env this =
       (let fd = accept_ret env;
            zeroed = memset (buffer this) (CHR 0x00) sizeof_buffer;
            n = min (length d) 30000;
            filled = take 30000 d @ drop n zeroed;
            stored = store_buffer h n (CHR 0x00) (this\<lparr>new_socket := fd, buffer := filled\<rparr>)
        in ([Cout [Lit ''Attempting to accept connection...''],
             Sys_accept (sock (socket this)) (address (socket this)),
             Cout [Lit ''Connection accepted on socket: '', Num fd],
             Sys_setsockopt fd SOL_SOCKET SO_RCVTIMEO \<lparr>tv_sec = 5, tv_usec = 0\<rparr>,
             Cout [Lit ''Reading from socket...''],
             Sys_recv fd zeroed 30000 0,
             Cout [Lit ''Bytes read: '', Num (int n)]]
            @ fst stored @ [Cout [Lit ''Raw received data (hex):'']]
            @ hex_loop 0 (int n) (buffer (snd stored)) @ [Cout []], snd stored))"
  by (simp add: acceptor_def Let_def get_socket_def get_sock_def get_address_def
      split_beta)

lemma recv_buffers_append: "recv_buffers (a @ b) = recv_buffers a @ recv_buffers b"
  by (induction a rule: recv_buffers.induct) simp_all

lemma out_of_bounds_writes_append:
  "out_of_bounds_writes (a @ b) = out_of_bounds_writes a @ out_of_bounds_writes b"
  by (induction a rule: out_of_bounds_writes.induct) simp_all

lemma hex_loop_quiet:
  "recv_buffers (hex_loop i n b) = [] \<and> out_of_bounds_writes (hex_loop i n b) = []
     \<and> filter is_syscall (hex_loop i n b) = []"
proof (induction i n b rule: hex_loop.induct)
  case (1 i bytes_read buf)
  show ?case
    by (subst (1 2 3) hex_loop.simps) (use 1 in auto)
qed

lemma store_buffer_trace:
  "fst (store_buffer h n c s) = (if n < sizeof_buffer then [] else [Out_of_bounds_write n])"
  by (simp add: store_buffer_def)

lemma store_buffer_fields:
  "socket (snd (store_buffer h n c s)) = socket s"
  "length (buffer (snd (store_buffer h n c s))) = length (buffer s)"
  by (simp_all add: store_buffer_def)

lemma store_buffer_new_socket:
  "new_socket (snd (store_buffer h n c s)) =
     (if sizeof_buffer \<le> n \<and> n - sizeof_buffer < 4
      then store_int_byte h (n - sizeof_buffer) c (new_socket s) else new_socket s)"
  by (simp add: store_buffer_def)

lemma acceptor_cases:
  obtains (accept_failed) "accept_ret env < 0"
  | (recv_error) "0 \<le> accept_ret env" "recv_reply env = Recv_error"
  | (recv_nothing) "0 \<le> accept_ret env" "recv_reply env = Recv_bytes []"
  | (recv_bytes) d where "0 \<le> accept_ret env" "recv_reply env = Recv_bytes d" "d \<noteq> []"
proof (cases "accept_ret env < 0")
  case True
  then show ?thesis by (rule accept_failed)
next
  case ok: False
  show ?thesis
  proof (cases "recv_reply env")
    case Recv_error
    with ok show ?thesis by (intro recv_error) simp_all
  next
    case (Recv_bytes d)
    with ok show ?thesis
      by (cases "d = []") (auto intro: recv_nothing recv_bytes)
  qed
qed

lemma acceptor_recv_buffers:
  "recv_buffers (fst (acceptor h env this)) =
     (if accept_ret env < 0 then [] else [memset (buffer this) (CHR 0x00) sizeof_buffer])"
proof (cases env rule: acceptor_cases)
  case accept_failed
  then show ?thesis by (simp add: acceptor_accept_failed)
next
  case recv_error
  then show ?thesis by (simp add: acceptor_recv_error)
next
  case recv_nothing
  then show ?thesis by (simp add: acceptor_recv_nothing)
next
  case (recv_bytes d)
  then show ?thesis
    by (simp add: acceptor_recv_bytes Let_def recv_buffers_append hex_loop_quiet store_buffer_trace)
qed

lemma acceptor_buffer_length:
  assumes "length (buffer this) = sizeof_buffer"
  shows "length (buffer (snd (acceptor h env this))) = sizeof_buffer"
proof (cases env rule: acceptor_cases)
  case accept_failed
  with assms show ?thesis by (simp add: acceptor_accept_failed)
next
  case recv_error
  with assms show ?thesis by (simp add: acceptor_recv_error length_memset)
next
  case recv_nothing
  with assms show ?thesis by (simp add: acceptor_recv_nothing length_memset)
next
  case (recv_bytes d)
  have "sizeof_buffer = 30000" by (simp add: sizeof_buffer_def)
  with recv_bytes assms show ?thesis
    by (simp add: acceptor_recv_bytes Let_def store_buffer_fields length_memset)
qed

lemma handler_state: "snd (handler this) = this"
  by (simp add: handler_def)

lemma responder_state: "snd (responder env this) = this"
  by (simp add: responder_def Let_def)



lemma events_stamp: "events (stamp k st tr) = tr"
  by (simp add: events_def stamp_def comp_def)

lemma events_append: "events (a @ b) = events a @ events b"
  by (simp add: events_def)

lemma launch_Cons:
  "launch h k (env # envs) this =
     (stamp k Waiting [Cout [Lit (CHR 0x0A # ''=== Waiting for new connection ===='')]]
        @ stamp k Accepting (fst (acceptor h env this))
        @ stamp k Handling (fst (handler (snd (acceptor h env this))))
        @ stamp k Responding (fst (responder env (snd (acceptor h env this))))
        @ stamp k Handled [Cout [Lit ''=== Connection handled ===='']]
        @ fst (launch h (Suc k) envs (snd (acceptor h env this))),
      snd (launch h (Suc k) envs (snd (acceptor h env this))))"
  by (simp add: split_beta handler_state responder_state)

section \<open>The receive buffer\<close>




text \<open>
  C9. After a read that returned \<open>bytes_read > 0\<close> the acceptor stores the terminator at
  \<open>buffer[bytes_read]\<close>. \<open>recv\<close> returns at most 30000; the store is inside the array
  when \<open>bytes_read < 30000\<close>, and when \<open>bytes_read\<close> is 30000 it goes to index
  \<open>sizeof_buffer\<close>, one element beyond the last.
\<close>

theorem terminator_write_bounds:
  assumes "0 \<le> accept_ret env"
    and "bytes_read = fst (sys_recv (recv_reply env) (memset (buffer this) (CHR 0x00) sizeof_buffer) 30000)"
    and "0 < bytes_read"
  shows "bytes_read \<le> 30000 \<and>
         out_of_bounds_writes (fst (acceptor h env this))
           = (if bytes_read < 30000 then [] else [sizeof_buffer])"
proof (cases "recv_reply env")
  case Recv_error
  with assms show ?thesis by simp
next
  case (Recv_bytes d)
  with assms have n: "bytes_read = int (min (length d) 30000)" and d: "d \<noteq> []"
    by (auto simp add: Let_def)
  have "out_of_bounds_writes (fst (acceptor h env this))
          = (if min (length d) 30000 < sizeof_buffer then [] else [min (length d) 30000])"
    using assms(1) Recv_bytes d
    by (simp add: acceptor_recv_bytes Let_def out_of_bounds_writes_append hex_loop_quiet
        store_buffer_trace)
  with n show ?thesis
    by (auto simp add: sizeof_buffer_def)
qed

theorem terminator_write_bounds_witness:
  "out_of_bounds_writes (fst (acceptor LittleEndian
      \<lparr>accept_ret = 4, recv_reply = Recv_bytes (replicate 30000 (CHR ''A'')), send_ret = 104\<rparr>
      example_server)) = [sizeof_buffer]
   \<and> out_of_bounds_writes (fst (acceptor LittleEndian
      \<lparr>accept_ret = 4, recv_reply = Recv_bytes (replicate 29999 (CHR ''A'')), send_ret = 104\<rparr>
      example_server)) = []"
  using terminator_write_bounds [of
      "\<lparr>accept_ret = 4, recv_reply = Recv_bytes (replicate 30000 (CHR ''A'')), send_ret = 104\<rparr>"
      30000 example_server LittleEndian]
    terminator_write_bounds [of
      "\<lparr>accept_ret = 4, recv_reply = Recv_bytes (replicate 29999 (CHR ''A'')), send_ret = 104\<rparr>"
      29999 example_server LittleEndian]
  by (simp add: Let_def)

section \<open>Stamps and stages\<close>

lemma map_stamp_key_stamp:
  "map stamp_key (stamp k st tr) = replicate (length tr) (5 * k + stage_rank st)"
  by (simp add: stamp_def stamp_key_def map_replicate_const comp_def)

lemma stage_events_append:
  "stage_events j st (a @ b) = stage_events j st a @ stage_events j st b"
  by (simp add: stage_events_def events_append)

lemma stage_events_stamp:
  "stage_events j st (stamp k st' tr) = (if k = j \<and> st' = st then tr else [])"
  by (induction tr) (auto simp add: stage_events_def stamp_def events_def)

lemma launch_iterations:
  "(j, st, e) \<in> set (fst (launch h k envs this)) \<Longrightarrow> k \<le> j \<and> j < k + length envs"
proof (induction envs arbitrary: k this)
  case Nil
  then show ?case by simp
next
  case (Cons env envs)
  from Cons.prems have
    "(j = k \<and> j < k + length (env # envs)) \<or>
     (j, st, e) \<in> set (fst (launch h (Suc k) envs (snd (acceptor h env this))))"
    by (auto simp add: launch_Cons stamp_def simp del: launch.simps)
  then show ?case
  proof
    assume "j = k \<and> j < k + length (env # envs)"
    then show ?thesis by simp
  next
    assume "(j, st, e) \<in> set (fst (launch h (Suc k) envs (snd (acceptor h env this))))"
    from Cons.IH [OF this] show ?thesis by simp
  qed
qed

lemma launch_keys_lower:
  "x \<in> set (fst (launch h k envs this)) \<Longrightarrow> 5 * k \<le> stamp_key x"
proof -
  assume x: "x \<in> set (fst (launch h k envs this))"
  obtain j st e where "x = (j, st, e)" by (cases x)
  with launch_iterations [of j st e h k envs this] x show ?thesis
    by (simp add: stamp_key_def)
qed

lemma stage_events_later:
  "j < k \<Longrightarrow> stage_events j st (fst (launch h k envs this)) = []"
proof -
  assume "j < k"
  then have "\<And>x. x \<in> set (fst (launch h k envs this)) \<Longrightarrow> \<not> (case x of (k', st', e) \<Rightarrow> k' = j \<and> st' = st)"
    using launch_iterations [of _ _ _ h k envs this] by fastforce
  then have "filter (\<lambda>(k', st', e). k' = j \<and> st' = st) (fst (launch h k envs this)) = []"
    by (simp add: filter_empty_conv)
  then show ?thesis by (simp add: stage_events_def events_def)
qed

lemma sorted_launch: "sorted (map stamp_key (fst (launch h k envs this)))"
proof (induction envs arbitrary: k this)
  case Nil
  show ?case by simp
next
  case (Cons env envs)
  have later: "\<And>x. x \<in> set (fst (launch h (Suc k) envs (snd (acceptor h env this))))
      \<Longrightarrow> 5 * k + 4 \<le> stamp_key x"
    using launch_keys_lower [of _ h "Suc k" envs "snd (acceptor h env this)"] by fastforce
  show ?case
    using Cons.IH [of "Suc k" "snd (acceptor h env this)"] later
    by (auto simp add: launch_Cons sorted_append map_stamp_key_stamp simp del: launch.simps
        dest!: later)
qed


lemma responder_trace:
  "fst (responder env this) =
     Sys_send (new_socket this)
        (''HTTP/1.1 200 OK'' @ [CHR 0x0D, CHR 0x0A]
         @ ''Content-Type: text/plain'' @ [CHR 0x0D, CHR 0x0A]
         @ ''Connection: close'' @ [CHR 0x0D, CHR 0x0A]
         @ ''Content-Length: 19'' @ [CHR 0x0D, CHR 0x0A]
         @ [CHR 0x0D, CHR 0x0A]
         @ ''Hello from Server!'' @ [CHR 0x0D, CHR 0x0A]) 0
       # (if send_ret env < 0 then [Cerr [Lit ''Failed to send response: '', Strerror_errno]]
          else [Cout [Lit ''Sent '', Num (send_ret env), Lit '' bytes as response'']])
       @ [Sys_shutdown (new_socket this) SHUT_RDWR, Sys_close (new_socket this)]"
  by (simp add: responder_def Let_def strlen_def)

lemma acceptor_socket: "socket (snd (acceptor h env this)) = socket this"
proof (cases env rule: acceptor_cases)
  case accept_failed
  then show ?thesis by (simp add: acceptor_accept_failed)
next
  case recv_error
  then show ?thesis by (simp add: acceptor_recv_error)
next
  case recv_nothing
  then show ?thesis by (simp add: acceptor_recv_nothing)
next
  case (recv_bytes d)
  then show ?thesis by (simp add: acceptor_recv_bytes Let_def store_buffer_fields)
qed

lemma stage_events_first_iteration:
  "stage_events k Accepting (fst (launch h k (env # envs) this)) = fst (acceptor h env this)"
  "stage_events k Handling (fst (launch h k (env # envs) this)) = fst (handler (snd (acceptor h env this)))"
  "stage_events k Responding (fst (launch h k (env # envs) this))
     = fst (responder env (snd (acceptor h env this)))"
  by (simp_all add: launch_Cons stage_events_append stage_events_stamp stage_events_later
      del: launch.simps)

section \<open>Iterations whose accept or read fails\<close>

lemma strlen_example: "strlen (buffer example_server) = 14"
  by (simp add: example_server_def strlen_def)

text \<open>
  C2. An iteration whose \<open>accept\<close> fails, or whose read fails or returns no bytes, should
  skip the handle and respond stages. \<open>launch\<close> calls \<open>handler\<close> and \<open>responder\<close> whatever
  the acceptor did. With \<open>accept\<close> returning -1 the handler prints the request still in
  the buffer from the connection before, and the responder sends the response to
  descriptor -1, shuts it down and closes it. With a read of no bytes the acceptor closes
  descriptor 4, and the responder then sends to it and closes it a second time.
\<close>

theorem failed_accept_is_handled_and_answered:
  "stage_events 0 Accepting (fst (launch LittleEndian 0
      [\<lparr>accept_ret = - 1, recv_reply = Recv_error, send_ret = - 1\<rparr>] example_server))
     = [Cout [Lit ''Attempting to accept connection...''],
        Sys_accept 3 \<lparr>sin_family = 2, sin_port = 0xB80B, sin_addr = 0\<rparr>,
        Cerr [Lit ''Accept failed with error: '', Strerror_errno]]
   \<and> stage_events 0 Handling (fst (launch LittleEndian 0
      [\<lparr>accept_ret = - 1, recv_reply = Recv_error, send_ret = - 1\<rparr>] example_server))
     = [Cout [Lit (CHR 0x0A # ''Received Request (''), Num 14, Lit '' bytes):''],
        Cout [Lit ''--- Begin Request ---''],
        Cout [Cstr ''GET / HTTP/1.1''],
        Cout [Lit ''--- End Request ---'']]
   \<and> filter is_syscall (stage_events 0 Responding (fst (launch LittleEndian 0
      [\<lparr>accept_ret = - 1, recv_reply = Recv_error, send_ret = - 1\<rparr>] example_server)))
     = [Sys_send (- 1)
          (''HTTP/1.1 200 OK'' @ [CHR 0x0D, CHR 0x0A]
           @ ''Content-Type: text/plain'' @ [CHR 0x0D, CHR 0x0A]
           @ ''Connection: close'' @ [CHR 0x0D, CHR 0x0A]
           @ ''Content-Length: 19'' @ [CHR 0x0D, CHR 0x0A]
           @ [CHR 0x0D, CHR 0x0A]
           @ ''Hello from Server!'' @ [CHR 0x0D, CHR 0x0A]) 0,
        Sys_shutdown (- 1) SHUT_RDWR,
        Sys_close (- 1)]
   \<and> filter is_syscall (stage_events 0 Accepting (fst (launch LittleEndian 0
      [\<lparr>accept_ret = 4, recv_reply = Recv_bytes [], send_ret = - 1\<rparr>] example_server)))
     = [Sys_accept 3 \<lparr>sin_family = 2, sin_port = 0xB80B, sin_addr = 0\<rparr>,
        Sys_setsockopt 4 SOL_SOCKET SO_RCVTIMEO \<lparr>tv_sec = 5, tv_usec = 0\<rparr>,
        Sys_recv 4 (replicate sizeof_buffer (CHR 0x00)) 30000 0,
        Sys_close 4]
   \<and> stage_events 0 Handling (fst (launch LittleEndian 0
      [\<lparr>accept_ret = 4, recv_reply = Recv_bytes [], send_ret = - 1\<rparr>] example_server))
     = [Cout [Lit ''Empty request received'']]
   \<and> filter is_syscall (stage_events 0 Responding (fst (launch LittleEndian 0
      [\<lparr>accept_ret = 4, recv_reply = Recv_bytes [], send_ret = - 1\<rparr>] example_server)))
     = [Sys_send 4
          (''HTTP/1.1 200 OK'' @ [CHR 0x0D, CHR 0x0A]
           @ ''Content-Type: text/plain'' @ [CHR 0x0D, CHR 0x0A]
           @ ''Connection: close'' @ [CHR 0x0D, CHR 0x0A]
           @ ''Content-Length: 19'' @ [CHR 0x0D, CHR 0x0A]
           @ [CHR 0x0D, CHR 0x0A]
           @ ''Hello from Server!'' @ [CHR 0x0D, CHR 0x0A]) 0,
        Sys_shutdown 4 SHUT_RDWR,
        Sys_close 4]"
proof -
  have len: "length (buffer example_server) = sizeof_buffer"
    by (simp add: example_server_def sizeof_buffer_def)
  have sock: "socket example_server = example_socket"
    by (simp add: example_server_def)
  have zeros: "strlen (replicate sizeof_buffer (CHR 0x00)) = 0"
    by (simp add: strlen_def)
  show ?thesis
    using len
    by (simp add: stage_events_first_iteration acceptor_accept_failed acceptor_recv_nothing
        responder_trace handler_def strlen_example memset_whole zeros sock
        del: launch.simps)
      (simp add: example_server_def example_socket_def)
qed

section \<open>Configuration and ownership\<close>

lemma network_byte_order:
  "mem16 h (htons h 3000) = [0x0B, 0xB8]"
  "mem32 h (htonl h (word_of_int INADDR_ANY)) = [0, 0, 0, 0]"
  by (cases h, simp_all add: mem16_def htons_def mem32_def htonl_def INADDR_ANY_def)+

lemma acceptor_syscalls:
  "0 \<le> accept_ret env \<Longrightarrow>
     filter is_syscall (fst (acceptor h env this))
       = [Sys_accept (sock (socket this)) (address (socket this)),
          Sys_setsockopt (accept_ret env) SOL_SOCKET SO_RCVTIMEO \<lparr>tv_sec = 5, tv_usec = 0\<rparr>,
          Sys_recv (accept_ret env) (memset (buffer this) (CHR 0x00) sizeof_buffer) 30000 0]
         @ (if fst (sys_recv (recv_reply env) (memset (buffer this) (CHR 0x00) sizeof_buffer) 30000) \<le> 0
            then [Sys_close (accept_ret env)] else [])"
proof (cases env rule: acceptor_cases)
  case accept_failed
  moreover assume "0 \<le> accept_ret env"
  ultimately show ?thesis by simp
next
  case recv_error
  then show ?thesis by (simp add: acceptor_recv_error)
next
  case recv_nothing
  then show ?thesis by (simp add: acceptor_recv_nothing)
next
  case (recv_bytes d)
  then show ?thesis
    by (simp add: acceptor_recv_bytes Let_def hex_loop_quiet store_buffer_trace)
qed

text \<open>
  C7. The server is set up with \<open>socket(AF_INET, SOCK_STREAM, 0)\<close>, bound to port 3000 in
  network byte order (the bytes 0x0B, 0xB8 in memory on either kind of host) on
  \<open>INADDR_ANY\<close>, and listens with backlog 10. After every successful \<open>accept\<close> the acceptor
  sets the receive timeout of the new descriptor to 5 seconds and then calls \<open>recv\<close> once,
  for at most 30000 bytes, the size of the buffer.
\<close>

theorem TestServer_configuration:
  "(0 \<le> socket_ret env \<and> 0 \<le> uninit env ''binding'' \<and> 0 \<le> listen_ret env \<longrightarrow>
      fst (TestServer h env conns)
        = [Sys_socket AF_INET SOCK_STREAM 0,
           Sys_bind (socket_ret env)
             \<lparr>sin_family = word_of_int AF_INET, sin_port = htons h 3000,
              sin_addr = htonl h (word_of_int INADDR_ANY)\<rparr>,
           Sys_listen (socket_ret env) 10])
   \<and> mem16 h (htons h 3000) = [0x0B, 0xB8]
   \<and> mem32 h (htonl h (word_of_int INADDR_ANY)) = [0, 0, 0, 0]
   \<and> (0 \<le> accept_ret cenv \<longrightarrow>
        take 3 (filter is_syscall (fst (acceptor h cenv this)))
          = [Sys_accept (sock (socket this)) (address (socket this)),
             Sys_setsockopt (accept_ret cenv) SOL_SOCKET SO_RCVTIMEO \<lparr>tv_sec = 5, tv_usec = 0\<rparr>,
             Sys_recv (accept_ret cenv) (memset (buffer this) (CHR 0x00) sizeof_buffer) 30000 0]
        \<and> length (recv_buffers (fst (acceptor h cenv this))) = 1
        \<and> fst (sys_recv (recv_reply cenv) (memset (buffer this) (CHR 0x00) sizeof_buffer) 30000)
             \<le> int sizeof_buffer)"
proof (intro conjI impI)
  assume "0 \<le> socket_ret env \<and> 0 \<le> uninit env ''binding'' \<and> 0 \<le> listen_ret env"
  then show "fst (TestServer h env conns)
        = [Sys_socket AF_INET SOCK_STREAM 0,
           Sys_bind (socket_ret env)
             \<lparr>sin_family = word_of_int AF_INET, sin_port = htons h 3000,
              sin_addr = htonl h (word_of_int INADDR_ANY)\<rparr>,
           Sys_listen (socket_ret env) 10]"
    by (simp add: TestServer_def SimpleServer_def ListeningSocket_run Let_def del: launch.simps)
next
  show "mem16 h (htons h 3000) = [0x0B, 0xB8]"
    by (rule network_byte_order)
next
  show "mem32 h (htonl h (word_of_int INADDR_ANY)) = [0, 0, 0, 0]"
    by (rule network_byte_order)
next
  assume "0 \<le> accept_ret cenv"
  then show "take 3 (filter is_syscall (fst (acceptor h cenv this)))
          = [Sys_accept (sock (socket this)) (address (socket this)),
             Sys_setsockopt (accept_ret cenv) SOL_SOCKET SO_RCVTIMEO \<lparr>tv_sec = 5, tv_usec = 0\<rparr>,
             Sys_recv (accept_ret cenv) (memset (buffer this) (CHR 0x00) sizeof_buffer) 30000 0]"
    by (simp add: acceptor_syscalls)
next
  assume "0 \<le> accept_ret cenv"
  then show "length (recv_buffers (fst (acceptor h cenv this))) = 1"
    by (simp add: acceptor_recv_buffers)
next
  show "fst (sys_recv (recv_reply cenv) (memset (buffer this) (CHR 0x00) sizeof_buffer) 30000)
             \<le> int sizeof_buffer"
    by (simp add: fst_sys_recv sizeof_buffer_def split: recv_reply.split)
qed

theorem TestServer_configuration_witness:
  "fst (TestServer LittleEndian
      \<lparr>socket_ret = 3, bind_ret = 0, listen_ret = 0, uninit = (\<lambda>m. 0)\<rparr> [])
     = [Sys_socket AF_INET SOCK_STREAM 0,
        Sys_bind 3 \<lparr>sin_family = word_of_int AF_INET, sin_port = htons LittleEndian 3000,
                    sin_addr = htonl LittleEndian (word_of_int INADDR_ANY)\<rparr>,
        Sys_listen 3 10]
   \<and> take 3 (filter is_syscall (fst (acceptor LittleEndian
        \<lparr>accept_ret = 4, recv_reply = Recv_bytes ''hello'', send_ret = 104\<rparr> example_server)))
     = [Sys_accept 3 \<lparr>sin_family = 2, sin_port = 0xB80B, sin_addr = 0\<rparr>,
        Sys_setsockopt 4 SOL_SOCKET SO_RCVTIMEO \<lparr>tv_sec = 5, tv_usec = 0\<rparr>,
        Sys_recv 4 (replicate sizeof_buffer (CHR 0x00)) 30000 0]"
proof -
  have len: "length (buffer example_server) = sizeof_buffer"
    by (simp add: example_server_def sizeof_buffer_def)
  have sock: "socket example_server = example_socket"
    by (simp add: example_server_def)
  show ?thesis
    using TestServer_configuration [of
        "\<lparr>socket_ret = 3, bind_ret = 0, listen_ret = 0, uninit = (\<lambda>m. 0)\<rparr>" LittleEndian "[]"
        "\<lparr>accept_ret = 4, recv_reply = Recv_bytes ''hello'', send_ret = 104\<rparr>" example_server]
      len
    by (simp add: memset_whole sock example_socket_def)
qed

lemma launch_socket: "socket (snd (launch h k envs this)) = socket this"
proof (induction envs arbitrary: k this)
  case Nil
  show ?case by simp
next
  case (Cons env envs)
  show ?case
    by (simp add: launch_Cons acceptor_socket Cons.IH del: launch.simps)
qed

lemma hex_loop_no_socket: "Sys_socket d s p \<notin> set (hex_loop i n b)"
proof (induction i n b rule: hex_loop.induct)
  case (1 i bytes_read buf)
  show ?case
    by (subst hex_loop.simps) (use 1 in auto)
qed

lemma acceptor_no_socket: "Sys_socket d s p \<notin> set (fst (acceptor h env this))"
proof (cases env rule: acceptor_cases)
  case accept_failed
  then show ?thesis by (simp add: acceptor_accept_failed)
next
  case recv_error
  then show ?thesis by (simp add: acceptor_recv_error)
next
  case recv_nothing
  then show ?thesis by (simp add: acceptor_recv_nothing)
next
  case (recv_bytes d')
  then show ?thesis
    by (simp add: acceptor_recv_bytes Let_def store_buffer_trace hex_loop_no_socket)
qed

lemma launch_no_socket: "Sys_socket d s p \<notin> set (events (fst (launch h k envs this)))"
proof (induction envs arbitrary: k this)
  case Nil
  show ?case by (simp add: events_def)
next
  case (Cons env envs)
  show ?case
    by (simp add: launch_Cons events_append events_stamp acceptor_no_socket Cons.IH
        handler_def responder_trace del: launch.simps)
qed

text \<open>
  C8. The server holds the listening socket its constructor created and no other: the
  constructor creates one (one \<open>socket\<close> call during set-up, none in the loop), and the
  acceptor, the handler, the responder and any number of iterations of the loop leave
  the member \<open>socket\<close> as it is.
\<close>

theorem listening_socket_never_replaced:
  "map_sum id (\<lambda>r. socket (snd r)) (snd (TestServer h senv envs))
     = snd (ListeningSocket h senv AF_INET SOCK_STREAM 0 3000 INADDR_ANY 10)
   \<and> length (filter (\<lambda>e. e = Sys_socket AF_INET SOCK_STREAM 0) (fst (TestServer h senv envs))) = 1
   \<and> Sys_socket d s p \<notin> set (events (fst (launch h k envs this)))
   \<and> socket (snd (acceptor h env this)) = socket this
   \<and> socket (snd (handler this)) = socket this
   \<and> socket (snd (responder env this)) = socket this
   \<and> socket (snd (launch h k envs this)) = socket this"
proof (intro conjI)
  show "map_sum id (\<lambda>r. socket (snd r)) (snd (TestServer h senv envs))
     = snd (ListeningSocket h senv AF_INET SOCK_STREAM 0 3000 INADDR_ANY 10)"
    by (simp add: TestServer_def SimpleServer_def Let_def launch_socket
        split: prod.split sum.split del: launch.simps)
next
  show "length (filter (\<lambda>e. e = Sys_socket AF_INET SOCK_STREAM 0) (fst (TestServer h senv envs))) = 1"
    by (simp add: TestServer_def SimpleServer_def ListeningSocket_run Let_def del: launch.simps)
next
  show "Sys_socket d s p \<notin> set (events (fst (launch h k envs this)))"
    by (rule launch_no_socket)
next
  show "socket (snd (acceptor h env this)) = socket this"
    by (rule acceptor_socket)
next
  show "socket (snd (handler this)) = socket this"
    by (simp add: handler_state)
next
  show "socket (snd (responder env this)) = socket this"
    by (simp add: responder_state)
next
  show "socket (snd (launch h k envs this)) = socket this"
    by (rule launch_socket)
qed

section \<open>The store past the end of the buffer\<close>

text \<open>
  On either host the terminator of a full buffer lands on \<open>new_socket\<close>: on a
  little-endian host it clears the low byte, so descriptor 4 becomes 0; on a big-endian
  host it clears the high byte, which leaves a small descriptor as it is.
\<close>

lemma store_int_byte_example: "store_int_byte LittleEndian 0 (CHR 0x00) 4 = 0"
  by (simp add: store_int_byte_def)

lemma store_int_byte_be: "store_int_byte BigEndian 0 (CHR 0x00) 4 = 4"
  by (simp add: store_int_byte_def)

lemma acceptor_new_socket:
  "new_socket (snd (acceptor h env this)) =
     (case recv_reply env of
        Recv_error \<Rightarrow> accept_ret env
      | Recv_bytes d \<Rightarrow>
          if 0 \<le> accept_ret env \<and> 30000 \<le> length d
          then store_int_byte h 0 (CHR 0x00) (accept_ret env) else accept_ret env)"
proof (cases env rule: acceptor_cases)
  case accept_failed
  then show ?thesis by (simp add: acceptor_accept_failed split: recv_reply.split)
next
  case recv_error
  then show ?thesis by (simp add: acceptor_recv_error)
next
  case recv_nothing
  then show ?thesis by (simp add: acceptor_recv_nothing)
next
  case (recv_bytes d)
  then show ?thesis
    by (simp add: acceptor_recv_bytes Let_def store_buffer_new_socket sizeof_buffer_def)
qed

lemma handler_syscalls: "filter is_syscall (fst (handler this)) = []"
  by (simp add: handler_def)

lemma responder_syscalls:
  "filter is_syscall (fst (responder env this))
     = [Sys_send (new_socket this)
          (''HTTP/1.1 200 OK'' @ [CHR 0x0D, CHR 0x0A]
           @ ''Content-Type: text/plain'' @ [CHR 0x0D, CHR 0x0A]
           @ ''Connection: close'' @ [CHR 0x0D, CHR 0x0A]
           @ ''Content-Length: 19'' @ [CHR 0x0D, CHR 0x0A]
           @ [CHR 0x0D, CHR 0x0A]
           @ ''Hello from Server!'' @ [CHR 0x0D, CHR 0x0A]) 0,
        Sys_shutdown (new_socket this) SHUT_RDWR,
        Sys_close (new_socket this)]"
  by (simp add: responder_trace)

lemma respond_stage_in_bounds:
  "0 \<le> accept_ret env \<Longrightarrow> out_of_bounds_writes (fst (acceptor h env this)) = [] \<Longrightarrow>
     filter is_syscall (stage_events k Responding (fst (launch h k (env # envs) this)))
       = [Sys_send (accept_ret env)
            (''HTTP/1.1 200 OK'' @ [CHR 0x0D, CHR 0x0A]
             @ ''Content-Type: text/plain'' @ [CHR 0x0D, CHR 0x0A]
             @ ''Connection: close'' @ [CHR 0x0D, CHR 0x0A]
             @ ''Content-Length: 19'' @ [CHR 0x0D, CHR 0x0A]
             @ [CHR 0x0D, CHR 0x0A]
             @ ''Hello from Server!'' @ [CHR 0x0D, CHR 0x0A]) 0,
          Sys_shutdown (accept_ret env) SHUT_RDWR,
          Sys_close (accept_ret env)]"
proof (cases env rule: acceptor_cases)
  case accept_failed
  moreover assume "0 \<le> accept_ret env"
  ultimately show ?thesis by simp
next
  case recv_error
  then show ?thesis
    by (simp add: stage_events_first_iteration responder_syscalls acceptor_new_socket
        del: launch.simps)
next
  case recv_nothing
  then show ?thesis
    by (simp add: stage_events_first_iteration responder_syscalls acceptor_new_socket
        del: launch.simps)
next
  case (recv_bytes d)
  assume "out_of_bounds_writes (fst (acceptor h env this)) = []"
  with recv_bytes have "length d < 30000"
    by (simp add: acceptor_recv_bytes Let_def out_of_bounds_writes_append hex_loop_quiet
        store_buffer_trace sizeof_buffer_def split: if_splits)
  with recv_bytes show ?thesis
    by (simp add: stage_events_first_iteration responder_syscalls acceptor_new_socket
        del: launch.simps)
qed

text \<open>
  C4. Every connection that reaches the respond stage should get the fixed response on
  its own descriptor, which is then shut down and closed, whatever the request. The
  responder does send the 104 bytes of the response, shut down and close \<open>new_socket\<close>;
  but a request that fills the buffer (30000 bytes or more on the wire) makes the
  acceptor store the terminator at \<open>buffer[30000]\<close>, the first byte of \<open>new_socket\<close>. On a
  little-endian host the connection accepted on descriptor 4 is then answered on
  descriptor 0, descriptor 0 is shut down and closed, and descriptor 4 is not closed.
\<close>

theorem full_buffer_request_answered_on_descriptor_0:
  "filter is_syscall (stage_events 0 Accepting (fst (launch LittleEndian 0
      [\<lparr>accept_ret = 4, recv_reply = Recv_bytes (replicate 30000 (CHR ''A'')), send_ret = 104\<rparr>]
      example_server)))
     = [Sys_accept 3 \<lparr>sin_family = 2, sin_port = 0xB80B, sin_addr = 0\<rparr>,
        Sys_setsockopt 4 SOL_SOCKET SO_RCVTIMEO \<lparr>tv_sec = 5, tv_usec = 0\<rparr>,
        Sys_recv 4 (replicate sizeof_buffer (CHR 0x00)) 30000 0]
   \<and> out_of_bounds_writes (stage_events 0 Accepting (fst (launch LittleEndian 0
      [\<lparr>accept_ret = 4, recv_reply = Recv_bytes (replicate 30000 (CHR ''A'')), send_ret = 104\<rparr>]
      example_server)))
     = [sizeof_buffer]
   \<and> filter is_syscall (stage_events 0 Responding (fst (launch LittleEndian 0
      [\<lparr>accept_ret = 4, recv_reply = Recv_bytes (replicate 30000 (CHR ''A'')), send_ret = 104\<rparr>]
      example_server)))
     = [Sys_send 0
          (''HTTP/1.1 200 OK'' @ [CHR 0x0D, CHR 0x0A]
           @ ''Content-Type: text/plain'' @ [CHR 0x0D, CHR 0x0A]
           @ ''Connection: close'' @ [CHR 0x0D, CHR 0x0A]
           @ ''Content-Length: 19'' @ [CHR 0x0D, CHR 0x0A]
           @ [CHR 0x0D, CHR 0x0A]
           @ ''Hello from Server!'' @ [CHR 0x0D, CHR 0x0A]) 0,
        Sys_shutdown 0 SHUT_RDWR,
        Sys_close 0]"
proof -
  have len: "length (buffer example_server) = sizeof_buffer"
    by (simp add: example_server_def sizeof_buffer_def)
  have sock: "socket example_server = example_socket"
    by (simp add: example_server_def)
  have oob: "out_of_bounds_writes (fst (acceptor LittleEndian
      \<lparr>accept_ret = 4, recv_reply = Recv_bytes (replicate 30000 (CHR ''A'')), send_ret = 104\<rparr>
      example_server)) = [sizeof_buffer]"
    by (simp add: acceptor_recv_bytes Let_def out_of_bounds_writes_append hex_loop_quiet
        store_buffer_trace sizeof_buffer_def)
  show ?thesis
    using len
    by (simp add: stage_events_first_iteration acceptor_syscalls responder_syscalls
        acceptor_new_socket store_int_byte_example memset_whole sock example_socket_def oob
        del: launch.simps)
qed


lemma launch_syscalls_Nil: "filter is_syscall (events (fst (launch h k [] this))) = []"
  by (simp add: events_def)

lemma launch_syscalls_Cons:
  "filter is_syscall (events (fst (launch h k (env # envs) this)))
     = filter is_syscall (fst (acceptor h env this))
       @ filter is_syscall (fst (responder env (snd (acceptor h env this))))
       @ filter is_syscall (events (fst (launch h (Suc k) envs (snd (acceptor h env this)))))"
  by (simp add: launch_Cons events_append events_stamp handler_syscalls del: launch.simps)

text \<open>
  C6. When connection A is followed by connection B, all of A's processing, the closing
  of its descriptor included, should be over before the accept stage of B. The stages do
  run one after the other (\<open>sorted_launch\<close>), but with a request of A that fills the buffer
  the system calls of the run are the ones below: A is accepted on descriptor 4, the
  responder sends to, shuts down and closes descriptor 0, and \<open>accept\<close> is called for B
  (and B served on descriptor 5) while descriptor 4 has not been closed and never is.
\<close>

theorem accepted_descriptor_still_open_at_next_accept:
  "filter is_syscall (events (fst (launch LittleEndian 0
      [\<lparr>accept_ret = 4, recv_reply = Recv_bytes (replicate 30000 (CHR ''A'')), send_ret = 104\<rparr>,
       \<lparr>accept_ret = 5, recv_reply = Recv_bytes ''bye'', send_ret = 104\<rparr>]
      example_server)))
     = [Sys_accept 3 \<lparr>sin_family = 2, sin_port = 0xB80B, sin_addr = 0\<rparr>,
        Sys_setsockopt 4 SOL_SOCKET SO_RCVTIMEO \<lparr>tv_sec = 5, tv_usec = 0\<rparr>,
        Sys_recv 4 (replicate sizeof_buffer (CHR 0x00)) 30000 0,
        Sys_send 0
          (''HTTP/1.1 200 OK'' @ [CHR 0x0D, CHR 0x0A]
           @ ''Content-Type: text/plain'' @ [CHR 0x0D, CHR 0x0A]
           @ ''Connection: close'' @ [CHR 0x0D, CHR 0x0A]
           @ ''Content-Length: 19'' @ [CHR 0x0D, CHR 0x0A]
           @ [CHR 0x0D, CHR 0x0A]
           @ ''Hello from Server!'' @ [CHR 0x0D, CHR 0x0A]) 0,
        Sys_shutdown 0 SHUT_RDWR,
        Sys_close 0,
        Sys_accept 3 \<lparr>sin_family = 2, sin_port = 0xB80B, sin_addr = 0\<rparr>,
        Sys_setsockopt 5 SOL_SOCKET SO_RCVTIMEO \<lparr>tv_sec = 5, tv_usec = 0\<rparr>,
        Sys_recv 5 (replicate sizeof_buffer (CHR 0x00)) 30000 0,
        Sys_send 5
          (''HTTP/1.1 200 OK'' @ [CHR 0x0D, CHR 0x0A]
           @ ''Content-Type: text/plain'' @ [CHR 0x0D, CHR 0x0A]
           @ ''Connection: close'' @ [CHR 0x0D, CHR 0x0A]
           @ ''Content-Length: 19'' @ [CHR 0x0D, CHR 0x0A]
           @ [CHR 0x0D, CHR 0x0A]
           @ ''Hello from Server!'' @ [CHR 0x0D, CHR 0x0A]) 0,
        Sys_shutdown 5 SHUT_RDWR,
        Sys_close 5]"
proof -
  let ?A = "\<lparr>accept_ret = 4, recv_reply = Recv_bytes (replicate 30000 (CHR ''A'')), send_ret = 104\<rparr>"
  have len: "length (buffer example_server) = sizeof_buffer"
    by (simp add: example_server_def sizeof_buffer_def)
  have len': "length (buffer (snd (acceptor LittleEndian ?A example_server))) = sizeof_buffer"
    using len by (rule acceptor_buffer_length)
  have sock: "socket example_server = example_socket"
    by (simp add: example_server_def)
  show ?thesis
    using len len'
    by (simp add: launch_syscalls_Cons acceptor_syscalls responder_syscalls acceptor_new_socket
        launch_syscalls_Nil acceptor_socket store_int_byte_example memset_whole sock
        example_socket_def del: launch.simps)
qed

end
